theory Spec2Isabelle
  imports Main
begin

section \<open>Data model (models.py)\<close>

text \<open>
  The persistent store of the clinic application is a relational database with one table
  per model class. A table is modelled as the list of its rows in insertion order; a
  query's \<open>first()\<close> is the first matching row of that list. Dates are represented by
  their proleptic Gregorian ordinal (Python's \<open>date.toordinal()\<close>), times of day are
  the strings \<open>HH:MM\<close> the code stores. Columns that no operation below reads
  (e-mail, password hash, phone, the \<open>created_at\<close> and \<open>checked_in_time\<close> time stamps)
  are left out of the rows.
\<close>

type_synonym date = int

datatype error = AttributeError | NotFound | OverflowError

record user =
  u_id :: nat
  u_name :: string
  u_role :: string

record slot =
  s_id :: nat
  s_doctor_id :: nat
  s_date :: date
  s_time :: string
  s_is_available :: bool

record appointment =
  a_id :: nat
  a_patient_id :: nat
  a_doctor_id :: nat
  a_nurse_id :: "nat option"
  a_date :: date
  a_time :: string
  a_duration :: nat
  a_status :: string
  a_reason :: "string option"
  a_notes :: "string option"
  a_checked_in :: bool

record doctor_schedule =
  ds_id :: nat
  ds_doctor_id :: nat
  ds_date :: date
  ds_start_time :: string
  ds_end_time :: string
  ds_is_available :: bool

text \<open>
  Notification texts are f-strings over the names of the patient and the doctor, the date
  and the time. A message is kept as its template together with the embedded values.
\<close>

datatype message =
    NewAppointment string date string
  | AppointmentConfirmed string date string
  | NurseAssigned string string date string
  | CancelledForDoctor string date string
  | CancelledForPatient string date string
  | CancelledForNurse string string date string
  | PatientCheckedIn string string

record notification =
  n_id :: nat
  n_user_id :: nat
  n_appointment_id :: "nat option"
  n_message :: message
  n_is_read :: bool

record db =
  users :: "user list"
  slots :: "slot list"
  appointments :: "appointment list"
  schedules :: "doctor_schedule list"
  notifications :: "notification list"

text \<open>
  An integer primary key without AUTOINCREMENT receives one more than the largest key in
  the table, and 1 in an empty table.
\<close>

definition next_id :: "nat list \<Rightarrow> nat" where
  "next_id ids = Suc (fold max ids 0)"

text \<open>Updating and deleting the row a query returned with \<open>first()\<close> or \<open>get()\<close>.\<close>

fun update_first :: "('a \<Rightarrow> bool) \<Rightarrow> ('a \<Rightarrow> 'a) \<Rightarrow> 'a list \<Rightarrow> 'a list" where
  "update_first P f [] = []"
| "update_first P f (x # xs) = (if P x then f x # xs else x # update_first P f xs)"

fun remove_first :: "('a \<Rightarrow> bool) \<Rightarrow> 'a list \<Rightarrow> 'a list" where
  "remove_first P [] = []"
| "remove_first P (x # xs) = (if P x then xs else x # remove_first P xs)"

definition get_user :: "nat \<Rightarrow> db \<Rightarrow> user option" where
  "get_user uid d = find (\<lambda>u. u_id u = uid) (users d)"

definition get_appointment :: "nat \<Rightarrow> db \<Rightarrow> appointment option" where
  "get_appointment aid d = find (\<lambda>a. a_id a = aid) (appointments d)"

definition slot_at :: "nat \<Rightarrow> date \<Rightarrow> string \<Rightarrow> slot \<Rightarrow> bool" where
  "slot_at doctor_id dt tm s \<longleftrightarrow> s_doctor_id s = doctor_id \<and> s_date s = dt \<and> s_time s = tm"

definition add_notification :: "nat \<Rightarrow> nat option \<Rightarrow> message \<Rightarrow> db \<Rightarrow> db" where
  "add_notification uid aid msg d =
     d\<lparr>notifications := notifications d @
        [\<lparr>n_id = next_id (map n_id (notifications d)), n_user_id = uid,
          n_appointment_id = aid, n_message = msg, n_is_read = False\<rparr>]\<rparr>"

text \<open>
  The idiom \<open>slot = DoctorAvailabilitySlot.query.filter_by(doctor_id, date, time).first()\<close>
  followed by \<open>if slot: slot.is_available = flag\<close>, which booking, cancelling and
  rescheduling share.
\<close>

definition set_slot_flag :: "nat \<Rightarrow> date \<Rightarrow> string \<Rightarrow> bool \<Rightarrow> db \<Rightarrow> db" where
  "set_slot_flag doctor_id dt tm flag d =
     (case find (slot_at doctor_id dt tm) (slots d) of
        None \<Rightarrow> d
      | Some s \<Rightarrow> d\<lparr>slots := update_first (slot_at doctor_id dt tm)
                              (\<lambda>s. s\<lparr>s_is_available := flag\<rparr>) (slots d)\<rparr>)"

text \<open>Python truthiness of an optional integer: \<open>None\<close> and \<open>0\<close> are false.\<close>

fun truthy :: "nat option \<Rightarrow> bool" where
  "truthy None = False"
| "truthy (Some n) = (n \<noteq> 0)"

section \<open>Helper operations of models.py\<close>

definition get_available_time_slots :: "nat \<Rightarrow> date \<Rightarrow> db \<Rightarrow> string list" where
  "get_available_time_slots doctor_id dt d =
     map s_time (filter (\<lambda>s. s_doctor_id s = doctor_id \<and> s_date s = dt \<and> s_is_available s)
       (slots d))"

text \<open>
  \<open>create_appointment_notifications\<close> adds two or three notifications to the session and
  commits them together. Reading \<open>appointment.patient.name\<close> or
  \<open>appointment.doctor.name\<close> raises AttributeError when the id references no user;
  nothing is committed then, so the result is either the error or the new store.
\<close>

definition create_appointment_notifications :: "appointment \<Rightarrow> db \<Rightarrow> error + db" where
  "create_appointment_notifications ap d =
     (case get_user (a_patient_id ap) d of
        None \<Rightarrow> Inl AttributeError
      | Some p \<Rightarrow>
          let d1 = add_notification (a_doctor_id ap) (Some (a_id ap))
                     (NewAppointment (u_name p) (a_date ap) (a_time ap)) d
          in (case get_user (a_doctor_id ap) d of
                None \<Rightarrow> Inl AttributeError
              | Some dr \<Rightarrow>
                  let d2 = add_notification (a_patient_id ap) (Some (a_id ap))
                             (AppointmentConfirmed (u_name dr) (a_date ap) (a_time ap)) d1;
                      d3 = (if truthy (a_nurse_id ap)
                            then add_notification (the (a_nurse_id ap)) (Some (a_id ap))
                                   (NurseAssigned (u_name p) (u_name dr) (a_date ap) (a_time ap)) d2
                            else d2)
                  in Inr d3))"

text \<open>
  \<open>create_appointment\<close> returns the pair of the appointment (or \<open>None\<close>) and a message.
  The appointment and the closed slot are committed before the notifications are built,
  so an exception raised there leaves both in the store: the model returns the outcome
  together with the store as committed.
\<close>

definition create_appointment ::
  "nat \<Rightarrow> nat \<Rightarrow> date \<Rightarrow> string \<Rightarrow> string option \<Rightarrow> nat option \<Rightarrow> db
     \<Rightarrow> (error + appointment option \<times> string) \<times> db" where
  "create_appointment patient_id doctor_id dt tm reason nurse_id d =
     (if tm \<notin> set (get_available_time_slots doctor_id dt d)
      then (Inr (None, ''This time slot is not available''), d)
      else
        let ap = \<lparr>a_id = next_id (map a_id (appointments d)), a_patient_id = patient_id,
                  a_doctor_id = doctor_id, a_nurse_id = nurse_id, a_date = dt, a_time = tm,
                  a_duration = 30, a_status = ''scheduled'', a_reason = reason,
                  a_notes = None, a_checked_in = False\<rparr>;
            d1 = d\<lparr>appointments := appointments d @ [ap]\<rparr>;
            d2 = set_slot_flag doctor_id dt tm False d1
        in (case create_appointment_notifications ap d2 of
              Inl e \<Rightarrow> (Inl e, d2)
            | Inr d3 \<Rightarrow> (Inr (Some ap, ''Appointment scheduled successfully''), d3)))"

text \<open>
  \<open>cancel_appointment\<close> of models.py marks the appointment cancelled, commits, and then
  builds the notifications. It returns \<open>False\<close> when the id is unknown.
\<close>

definition cancel_appointment :: "nat \<Rightarrow> db \<Rightarrow> (error + bool) \<times> db" where
  "cancel_appointment appointment_id d =
     (case get_appointment appointment_id d of
        None \<Rightarrow> (Inr False, d)
      | Some ap0 \<Rightarrow>
          let ap = ap0\<lparr>a_status := ''cancelled''\<rparr>;
              d1 = d\<lparr>appointments := update_first (\<lambda>a. a_id a = appointment_id)
                                         (\<lambda>a. a\<lparr>a_status := ''cancelled''\<rparr>) (appointments d)\<rparr>
          in (case get_user (a_patient_id ap) d1 of
                None \<Rightarrow> (Inl AttributeError, d1)
              | Some p \<Rightarrow>
                  let d2 = add_notification (a_doctor_id ap) (Some (a_id ap))
                             (CancelledForDoctor (u_name p) (a_date ap) (a_time ap)) d1
                  in (case get_user (a_doctor_id ap) d1 of
                        None \<Rightarrow> (Inl AttributeError, d1)
                      | Some dr \<Rightarrow>
                          let d3 = add_notification (a_patient_id ap) (Some (a_id ap))
                                     (CancelledForPatient (u_name dr) (a_date ap) (a_time ap)) d2;
                              d4 = (if truthy (a_nurse_id ap)
                                    then add_notification (the (a_nurse_id ap)) (Some (a_id ap))
                                           (CancelledForNurse (u_name p) (u_name dr)
                                              (a_date ap) (a_time ap)) d3
                                    else d3)
                          in (Inr True, d4))))"

section \<open>Request handlers (app.py)\<close>

text \<open>
  A handler receives the session (absent when nobody is logged in), the fields of the
  request already parsed to their types, and the store; it returns the response, or the
  exception that ends the request, together with the store as committed. The responses
  are redirects with an optional flashed message and category, or a JSON success flag.
\<close>

record session =
  sess_user_id :: nat
  sess_role :: string
  sess_name :: string

datatype response =
    Redirect string "(string \<times> string) option"
  | Json bool

type_synonym reply = "(error + response) \<times> db"

definition role_required ::
  "string list \<Rightarrow> session option \<Rightarrow> (session \<Rightarrow> db \<Rightarrow> reply) \<Rightarrow> db \<Rightarrow> reply" where
  "role_required allowed_roles sess f d =
     (case sess of
        None \<Rightarrow> (Inr (Redirect ''login'' (Some (''Please log in to access this page'', ''error''))), d)
      | Some se \<Rightarrow>
          if sess_role se \<notin> set allowed_roles
          then (Inr (Redirect ''homepage''
                  (Some (''You do not have permission to access this page'', ''error''))), d)
          else f se d)"

text \<open>
  \<open>db.session.delete(appointment)\<close>: the row is deleted, and the notifications that
  reference it through the \<open>notifications\<close> back-reference have their
  \<open>appointment_id\<close> set to NULL.
\<close>

definition delete_appointment :: "appointment \<Rightarrow> db \<Rightarrow> db" where
  "delete_appointment ap d =
     d\<lparr>appointments := remove_first (\<lambda>a. a_id a = a_id ap) (appointments d),
       notifications := map (\<lambda>n. if n_appointment_id n = Some (a_id ap)
                                   then n\<lparr>n_appointment_id := None\<rparr> else n) (notifications d)\<rparr>"

text \<open>
  \<open>create_default_schedule\<close>: the current date is a parameter. Adding a
  \<open>timedelta\<close> to a date raises OverflowError when the result leaves the range of
  \<open>date\<close> (ordinals 1 to 3652059, the years 1 to 9999). The rows are committed only
  after the loop, so an exception leaves the store as it was.
\<close>

definition date_max :: int where
  "date_max = 3652059"

definition date_add :: "date \<Rightarrow> int \<Rightarrow> error + date" where
  "date_add dt n =
     (let ord = dt + n in if 0 < ord \<and> ord \<le> date_max then Inr ord else Inl OverflowError)"

definition weekday :: "date \<Rightarrow> int" where
  "weekday dt = (dt + 6) mod 7"

definition add_schedule :: "nat \<Rightarrow> date \<Rightarrow> db \<Rightarrow> db" where
  "add_schedule doctor_id dt d =
     d\<lparr>schedules := schedules d @
        [\<lparr>ds_id = next_id (map ds_id (schedules d)), ds_doctor_id = doctor_id, ds_date = dt,
          ds_start_time = ''09:00'', ds_end_time = ''17:00'', ds_is_available = True\<rparr>]\<rparr>"

function schedule_loop :: "nat \<Rightarrow> date \<Rightarrow> date \<Rightarrow> db \<Rightarrow> error + db" where
  "schedule_loop doctor_id current_date end_date d =
     (if current_date \<le> end_date
      then (let d1 = (if weekday current_date < 5 then add_schedule doctor_id current_date d else d)
            in (case date_add current_date 1 of
                  Inl e \<Rightarrow> Inl e
                | Inr nxt \<Rightarrow> schedule_loop doctor_id nxt end_date d1))
      else Inr d)"
  by pat_completeness auto
termination
  by (relation "measure (\<lambda>(doctor_id, current_date, end_date, d). nat (end_date + 1 - current_date))")
     (auto simp: date_add_def Let_def split: if_splits)

declare schedule_loop.simps [simp del]

definition create_default_schedule :: "nat \<Rightarrow> date \<Rightarrow> db \<Rightarrow> (error + unit) \<times> db" where
  "create_default_schedule doctor_id today d =
     (case date_add today 30 of
        Inl e \<Rightarrow> (Inl e, d)
      | Inr end_date \<Rightarrow>
          (case schedule_loop doctor_id today end_date d of
             Inl e \<Rightarrow> (Inl e, d)
           | Inr d' \<Rightarrow> (Inr (), d')))"

text \<open>
  POST on \<open>/doctor/appointment/<appointment_id>\<close>: the doctor who owns the appointment
  stores the submitted notes and status.
\<close>

definition doctor_appointment_detail ::
  "session option \<Rightarrow> nat \<Rightarrow> string \<Rightarrow> string \<Rightarrow> db \<Rightarrow> reply" where
  "doctor_appointment_detail sess appointment_id notes status d =
     role_required [''doctor''] sess (\<lambda>se d.
       case get_appointment appointment_id d of
         None \<Rightarrow> (Inl NotFound, d)
       | Some ap \<Rightarrow>
           if a_doctor_id ap \<noteq> sess_user_id se
           then (Inr (Redirect ''doctor_dashboard'' (Some (''Unauthorized access'', ''error''))), d)
           else (Inr (Redirect ''doctor_appointment_detail''
                        (Some (''Appointment updated successfully'', ''success''))),
                 d\<lparr>appointments := update_first (\<lambda>a. a_id a = appointment_id)
                        (\<lambda>a. a\<lparr>a_notes := Some notes, a_status := status\<rparr>) (appointments d)\<rparr>)) d"

text \<open>POST on \<open>/nurse/check-in/<appointment_id>\<close>.\<close>

definition check_in_patient :: "session option \<Rightarrow> nat \<Rightarrow> db \<Rightarrow> reply" where
  "check_in_patient sess appointment_id d =
     role_required [''nurse''] sess (\<lambda>se d.
       case get_appointment appointment_id d of
         None \<Rightarrow> (Inl NotFound, d)
       | Some ap \<Rightarrow>
           let d1 = d\<lparr>appointments := update_first (\<lambda>a. a_id a = appointment_id)
                                      (\<lambda>a. a\<lparr>a_checked_in := True\<rparr>) (appointments d)\<rparr>
           in (case get_user (a_patient_id ap) d1 of
                 None \<Rightarrow> (Inl AttributeError, d1)
               | Some p \<Rightarrow>
                   (Inr (Redirect ''nurse_dashboard'' (Some (''Patient checked in successfully'', ''success''))),
                    add_notification (a_doctor_id ap) None
                      (PatientCheckedIn (u_name p) (a_time ap)) d1))) d"

text \<open>
  POST on \<open>/patient/book-appointment\<close>. With a reschedule id of an appointment the
  session's patient owns, the old slot is reopened and the old appointment deleted
  first; in every case the booking follows.
\<close>

definition book_appointment ::
  "session option \<Rightarrow> nat option \<Rightarrow> nat \<Rightarrow> date \<Rightarrow> string \<Rightarrow> string \<Rightarrow> db \<Rightarrow> reply" where
  "book_appointment sess reschedule_id doctor_id dt tm reason d =
     role_required [''patient''] sess (\<lambda>se d.
       let d1 = (if truthy reschedule_id
                 then (case get_appointment (the reschedule_id) d of
                         None \<Rightarrow> d
                       | Some old_appointment \<Rightarrow>
                           if a_patient_id old_appointment = sess_user_id se
                           then delete_appointment old_appointment
                                  (set_slot_flag (a_doctor_id old_appointment)
                                     (a_date old_appointment) (a_time old_appointment) True d)
                           else d)
                 else d)
       in (case create_appointment (sess_user_id se) doctor_id dt tm (Some reason) None d1 of
             (Inl e, d2) \<Rightarrow> (Inl e, d2)
           | (Inr (Some ap, msg), d2) \<Rightarrow>
               (Inr (Redirect ''patient_dashboard'' (Some (''Appointment booked successfully'', ''success''))), d2)
           | (Inr (None, msg), d2) \<Rightarrow>
               (Inr (Redirect ''book_appointment'' (Some (msg, ''error''))), d2))) d"

text \<open>
  POST on \<open>/patient/cancel-appointment/<appointment_id>\<close>. This handler is itself named
  \<open>cancel_appointment\<close> in app.py and so replaces the function imported from models.py
  under that name. The status written after \<open>db.session.delete\<close> is never stored: the
  commit deletes the row.
\<close>

definition cancel_appointment_route :: "session option \<Rightarrow> nat \<Rightarrow> db \<Rightarrow> reply" where
  "cancel_appointment_route sess appointment_id d =
     role_required [''patient''] sess (\<lambda>se d.
       case get_appointment appointment_id d of
         None \<Rightarrow> (Inl NotFound, d)
       | Some ap \<Rightarrow>
           if a_patient_id ap \<noteq> sess_user_id se
           then (Inr (Redirect ''patient_dashboard'' (Some (''Unauthorized action.'', ''danger''))), d)
           else (Inr (Redirect ''patient_dashboard''
                        (Some (''Appointment cancelled successfully.'', ''success''))),
                 delete_appointment ap
                   (set_slot_flag (a_doctor_id ap) (a_date ap) (a_time ap) True d))) d"

text \<open>POST on \<open>/doctor/toggle-slot\<close>: the slot of the session's doctor is updated or created.\<close>

definition toggle_slot :: "session option \<Rightarrow> date \<Rightarrow> string \<Rightarrow> bool \<Rightarrow> db \<Rightarrow> reply" where
  "toggle_slot sess dt tm is_available d =
     role_required [''doctor''] sess (\<lambda>se d.
       (Inr (Json True),
        (case find (slot_at (sess_user_id se) dt tm) (slots d) of
           Some s \<Rightarrow> d\<lparr>slots := update_first (slot_at (sess_user_id se) dt tm)
                                  (\<lambda>s. s\<lparr>s_is_available := is_available\<rparr>) (slots d)\<rparr>
         | None \<Rightarrow> d\<lparr>slots := slots d @
                        [\<lparr>s_id = next_id (map s_id (slots d)), s_doctor_id = sess_user_id se,
                          s_date = dt, s_time = tm, s_is_available = is_available\<rparr>]\<rparr>))) d"

section \<open>Auxiliary notions for the specification\<close>

text \<open>
  The key of a slot, and names for the appointment that \<open>create_appointment\<close> inserts
  and for the store after its first two commits (appointment inserted, slot closed).
\<close>

definition slot_key :: "slot \<Rightarrow> nat \<times> date \<times> string" where
  "slot_key s = (s_doctor_id s, s_date s, s_time s)"

definition new_appointment ::
  "nat \<Rightarrow> nat \<Rightarrow> date \<Rightarrow> string \<Rightarrow> string option \<Rightarrow> nat option \<Rightarrow> db \<Rightarrow> appointment" where
  "new_appointment patient_id doctor_id dt tm reason nurse_id d =
     \<lparr>a_id = next_id (map a_id (appointments d)), a_patient_id = patient_id,
      a_doctor_id = doctor_id, a_nurse_id = nurse_id, a_date = dt, a_time = tm,
      a_duration = 30, a_status = ''scheduled'', a_reason = reason,
      a_notes = None, a_checked_in = False\<rparr>"

definition booked_store ::
  "nat \<Rightarrow> nat \<Rightarrow> date \<Rightarrow> string \<Rightarrow> string option \<Rightarrow> nat option \<Rightarrow> db \<Rightarrow> db" where
  "booked_store patient_id doctor_id dt tm reason nurse_id d =
     set_slot_flag doctor_id dt tm False
       (d\<lparr>appointments := appointments d @ [new_appointment patient_id doctor_id dt tm reason nurse_id d]\<rparr>)"

text \<open>
  Example stores: four users, and one open slot of doctor 2 on ordinal 739047
  (Monday 2024-06-10) at 09:00; a store whose only slot lies on 0001-01-01 and belongs
  to user 4, a patient.
\<close>

definition ex_users :: "user list" where
  "ex_users = [\<lparr>u_id = 1, u_name = ''Pat'', u_role = ''patient''\<rparr>,
               \<lparr>u_id = 2, u_name = ''Dana'', u_role = ''doctor''\<rparr>,
               \<lparr>u_id = 3, u_name = ''Noor'', u_role = ''nurse''\<rparr>,
               \<lparr>u_id = 4, u_name = ''Quinn'', u_role = ''patient''\<rparr>]"

definition ex_open :: db where
  "ex_open = \<lparr>users = ex_users,
              slots = [\<lparr>s_id = 1, s_doctor_id = 2, s_date = 739047, s_time = ''09:00'',
                        s_is_available = True\<rparr>],
              appointments = [], schedules = [], notifications = []\<rparr>"

definition ex_past :: db where
  "ex_past = \<lparr>users = ex_users,
              slots = [\<lparr>s_id = 1, s_doctor_id = 4, s_date = 1, s_time = ''09:00'',
                        s_is_available = True\<rparr>],
              appointments = [], schedules = [], notifications = []\<rparr>"

text \<open>Sessions of the example users.\<close>

definition patient_session :: "session option" where
  "patient_session = Some \<lparr>sess_user_id = 1, sess_role = ''patient'', sess_name = ''Pat''\<rparr>"

definition doctor_session :: "session option" where
  "doctor_session = Some \<lparr>sess_user_id = 2, sess_role = ''doctor'', sess_name = ''Dana''\<rparr>"

definition other_patient_session :: "session option" where
  "other_patient_session = Some \<lparr>sess_user_id = 4, sess_role = ''patient'', sess_name = ''Quinn''\<rparr>"

text \<open>
  The store after doctor 2 has opened the slots at 09:00 and 10:00 of ordinal 739047 and
  patient 1 has booked the first one.
\<close>

definition ex_booked :: db where
  "ex_booked =
     \<lparr>users = ex_users,
      slots = [\<lparr>s_id = 1, s_doctor_id = 2, s_date = 739047, s_time = ''09:00'', s_is_available = False\<rparr>,
               \<lparr>s_id = 2, s_doctor_id = 2, s_date = 739047, s_time = ''10:00'', s_is_available = True\<rparr>],
      appointments = [\<lparr>a_id = 1, a_patient_id = 1, a_doctor_id = 2, a_nurse_id = None,
                       a_date = 739047, a_time = ''09:00'', a_duration = 30,
                       a_status = ''scheduled'', a_reason = Some ''checkup'', a_notes = None,
                       a_checked_in = False\<rparr>],
      schedules = [],
      notifications = [\<lparr>n_id = 1, n_user_id = 2, n_appointment_id = Some 1,
                        n_message = NewAppointment ''Pat'' 739047 ''09:00'', n_is_read = False\<rparr>,
                       \<lparr>n_id = 2, n_user_id = 1, n_appointment_id = Some 1,
                        n_message = AppointmentConfirmed ''Dana'' 739047 ''09:00'', n_is_read = False\<rparr>]\<rparr>"

text \<open>
  The requests that change the store, and the store after handling one. \<open>Seed\<close> is the
  call of \<open>create_default_schedule\<close> that signing up a doctor makes; \<open>ModelCancel\<close> is a
  direct call of \<open>cancel_appointment\<close> of models.py, which no handler of app.py makes.
\<close>

datatype request =
    Book "session option" "nat option" nat date string string
  | Cancel "session option" nat
  | Toggle "session option" date string bool
  | DoctorUpdate "session option" nat string string
  | CheckIn "session option" nat
  | Seed nat date
  | ModelCancel nat

fun handle :: "request \<Rightarrow> db \<Rightarrow> db" where
  "handle (Book sess reschedule_id doctor_id dt tm reason) d =
     snd (book_appointment sess reschedule_id doctor_id dt tm reason d)"
| "handle (Cancel sess appointment_id) d = snd (cancel_appointment_route sess appointment_id d)"
| "handle (Toggle sess dt tm is_available) d = snd (toggle_slot sess dt tm is_available d)"
| "handle (DoctorUpdate sess appointment_id notes status) d =
     snd (doctor_appointment_detail sess appointment_id notes status d)"
| "handle (CheckIn sess appointment_id) d = snd (check_in_patient sess appointment_id d)"
| "handle (Seed doctor_id today) d = snd (create_default_schedule doctor_id today d)"
| "handle (ModelCancel appointment_id) d = snd (cancel_appointment appointment_id d)"






section \<open>Properties\<close>

subsection \<open>Tables, slots and notifications\<close>

lemma slot_at_key: "slot_at doctor_id dt tm s \<longleftrightarrow> slot_key s = (doctor_id, dt, tm)"
  by (auto simp: slot_at_def slot_key_def)

lemma is_open_iff:
  "tm \<in> set (get_available_time_slots doctor_id dt d) \<longleftrightarrow>
     (\<exists>s\<in>set (slots d). slot_at doctor_id dt tm s \<and> s_is_available s)"
  by (auto simp: get_available_time_slots_def slot_at_def)

lemma update_first_map_key:
  "(\<And>x. g (f x) = g x) \<Longrightarrow> map g (update_first P f xs) = map g xs"
  by (induction xs) auto

lemma update_first_distinct:
  assumes "distinct (map g xs)" and "\<And>x. P x \<longleftrightarrow> g x = k"
  shows "update_first P f xs = map (\<lambda>x. if P x then f x else x) xs"
  using assms(1)
proof (induction xs)
  case Nil
  then show ?case by simp
next
  case (Cons x xs)
  show ?case
  proof (cases "P x")
    case True
    with Cons.prems assms(2) have "\<forall>y\<in>set xs. \<not> P y" by (auto simp: image_iff)
    then have "map (\<lambda>x. if P x then f x else x) xs = xs" by (simp add: map_idI)
    with True show ?thesis by simp
  next
    case False
    with Cons show ?thesis by simp
  qed
qed

lemma find_None_update_first: "find P xs = None \<Longrightarrow> update_first P f xs = xs"
  by (induction xs) (auto split: if_splits)

lemma set_slot_flag_slots:
  "slots (set_slot_flag doctor_id dt tm flag d) =
     update_first (slot_at doctor_id dt tm) (\<lambda>s. s\<lparr>s_is_available := flag\<rparr>) (slots d)"
  by (simp add: set_slot_flag_def find_None_update_first split: option.split)

lemma set_slot_flag_other [simp]:
  "users (set_slot_flag doctor_id dt tm flag d) = users d"
  "appointments (set_slot_flag doctor_id dt tm flag d) = appointments d"
  "notifications (set_slot_flag doctor_id dt tm flag d) = notifications d"
  "schedules (set_slot_flag doctor_id dt tm flag d) = schedules d"
  by (simp_all add: set_slot_flag_def split: option.split)

lemma add_notification_other [simp]:
  "users (add_notification u a m d) = users d"
  "appointments (add_notification u a m d) = appointments d"
  "slots (add_notification u a m d) = slots d"
  "schedules (add_notification u a m d) = schedules d"
  by (simp_all add: add_notification_def)

lemma get_user_add_notification [simp]: "get_user u (add_notification v a m d) = get_user u d"
  by (simp add: get_user_def)

lemma create_appointment_closed:
  "tm \<notin> set (get_available_time_slots doctor_id dt d) \<Longrightarrow>
   create_appointment patient_id doctor_id dt tm reason nurse_id d =
     (Inr (None, ''This time slot is not available''), d)"
  by (simp add: create_appointment_def)

lemma create_appointment_open:
  "tm \<in> set (get_available_time_slots doctor_id dt d) \<Longrightarrow>
   create_appointment patient_id doctor_id dt tm reason nurse_id d =
     (case create_appointment_notifications (new_appointment patient_id doctor_id dt tm reason nurse_id d)
             (booked_store patient_id doctor_id dt tm reason nurse_id d) of
        Inl e \<Rightarrow> (Inl e, booked_store patient_id doctor_id dt tm reason nurse_id d)
      | Inr d3 \<Rightarrow> (Inr (Some (new_appointment patient_id doctor_id dt tm reason nurse_id d),
                        ''Appointment scheduled successfully''), d3))"
  by (simp add: create_appointment_def new_appointment_def booked_store_def Let_def split: sum.split)

lemma notifications_Inr:
  assumes "get_user (a_patient_id ap) d = Some p" and "get_user (a_doctor_id ap) d = Some dr"
  shows "\<exists>d'. create_appointment_notifications ap d = Inr d' \<and>
           users d' = users d \<and> slots d' = slots d \<and> appointments d' = appointments d \<and>
           schedules d' = schedules d \<and>
           (\<exists>new. notifications d' = notifications d @ new \<and>
              (\<forall>n\<in>set new. \<not> n_is_read n \<and> n_appointment_id n = Some (a_id ap)) \<and>
              map n_user_id new =
                (if truthy (a_nurse_id ap) then [a_doctor_id ap, a_patient_id ap, the (a_nurse_id ap)]
                 else [a_doctor_id ap, a_patient_id ap]))"
  using assms
  by (simp add: create_appointment_notifications_def Let_def add_notification_def)

subsection \<open>Booking\<close>

lemma booked_store_fields [simp]:
  "users (booked_store p dr dt tm r n d) = users d"
  "notifications (booked_store p dr dt tm r n d) = notifications d"
  "schedules (booked_store p dr dt tm r n d) = schedules d"
  "appointments (booked_store p dr dt tm r n d) = appointments d @ [new_appointment p dr dt tm r n d]"
  "slots (booked_store p dr dt tm r n d) =
     update_first (slot_at dr dt tm) (\<lambda>s. s\<lparr>s_is_available := False\<rparr>) (slots d)"
  by (simp_all add: booked_store_def set_slot_flag_slots)

lemma get_user_booked_store [simp]: "get_user u (booked_store p dr dt tm r n d) = get_user u d"
  by (simp add: get_user_def)

lemma new_appointment_fields [simp]:
  "a_patient_id (new_appointment p dr dt tm r n d) = p"
  "a_doctor_id (new_appointment p dr dt tm r n d) = dr"
  "a_nurse_id (new_appointment p dr dt tm r n d) = n"
  "a_date (new_appointment p dr dt tm r n d) = dt"
  "a_time (new_appointment p dr dt tm r n d) = tm"
  "a_status (new_appointment p dr dt tm r n d) = ''scheduled''"
  "a_id (new_appointment p dr dt tm r n d) = next_id (map a_id (appointments d))"
  by (simp_all add: new_appointment_def)

lemma create_appointment_success:
  assumes op: "tm \<in> set (get_available_time_slots doctor_id dt d)"
    and p: "get_user patient_id d = Some p" and dr: "get_user doctor_id d = Some dr"
  shows "\<exists>d'. create_appointment patient_id doctor_id dt tm reason nurse_id d =
            (Inr (Some (new_appointment patient_id doctor_id dt tm reason nurse_id d),
                  ''Appointment scheduled successfully''), d') \<and>
          users d' = users d \<and> schedules d' = schedules d \<and>
          appointments d' = appointments d @ [new_appointment patient_id doctor_id dt tm reason nurse_id d] \<and>
          slots d' = update_first (slot_at doctor_id dt tm) (\<lambda>s. s\<lparr>s_is_available := False\<rparr>) (slots d) \<and>
          (\<exists>new. notifications d' = notifications d @ new \<and>
              (\<forall>n\<in>set new. \<not> n_is_read n \<and>
                  n_appointment_id n = Some (next_id (map a_id (appointments d)))) \<and>
              map n_user_id new =
                (if truthy nurse_id then [doctor_id, patient_id, the nurse_id]
                 else [doctor_id, patient_id]))"
proof -
  let ?ap = "new_appointment patient_id doctor_id dt tm reason nurse_id d"
  let ?b = "booked_store patient_id doctor_id dt tm reason nurse_id d"
  have "get_user (a_patient_id ?ap) ?b = Some p" "get_user (a_doctor_id ?ap) ?b = Some dr"
    using p dr by simp_all
  from notifications_Inr [OF this] obtain d' new where
    n: "create_appointment_notifications ?ap ?b = Inr d'" and
    f: "users d' = users ?b" "slots d' = slots ?b" "appointments d' = appointments ?b"
       "schedules d' = schedules ?b" and
    new: "notifications d' = notifications ?b @ new"
         "\<forall>n\<in>set new. \<not> n_is_read n \<and> n_appointment_id n = Some (a_id ?ap)"
         "map n_user_id new =
                (if truthy (a_nurse_id ?ap) then [a_doctor_id ?ap, a_patient_id ?ap, the (a_nurse_id ?ap)]
                 else [a_doctor_id ?ap, a_patient_id ?ap])"
    by blast
  have r: "create_appointment patient_id doctor_id dt tm reason nurse_id d =
          (Inr (Some ?ap, ''Appointment scheduled successfully''), d')"
    using create_appointment_open [OF op] n by simp
  have "\<exists>new. notifications d' = notifications d @ new \<and>
              (\<forall>n\<in>set new. \<not> n_is_read n \<and>
                  n_appointment_id n = Some (next_id (map a_id (appointments d)))) \<and>
              map n_user_id new =
                (if truthy nurse_id then [doctor_id, patient_id, the nurse_id]
                 else [doctor_id, patient_id])"
    using new by (intro exI [of _ new]) simp
  with r f show ?thesis by simp
qed

lemma create_appointment_Some_D:
  assumes "create_appointment patient_id doctor_id dt tm reason nurse_id d = (Inr (Some ap, msg), d')"
  shows "tm \<in> set (get_available_time_slots doctor_id dt d) \<and>
         (\<exists>p. get_user patient_id d = Some p) \<and> (\<exists>dr. get_user doctor_id d = Some dr)"
proof -
  have op: "tm \<in> set (get_available_time_slots doctor_id dt d)"
    using assms by (rule contrapos_pp) (simp add: create_appointment_closed)
  let ?ap = "new_appointment patient_id doctor_id dt tm reason nurse_id d"
  let ?b = "booked_store patient_id doctor_id dt tm reason nurse_id d"
  from assms create_appointment_open [OF op, of patient_id reason nurse_id]
  obtain d3 where "create_appointment_notifications ?ap ?b = Inr d3"
    by (auto split: sum.splits)
  then have "get_user patient_id d \<noteq> None \<and> get_user doctor_id d \<noteq> None"
    by (auto simp: create_appointment_notifications_def Let_def split: option.splits)
  with op show ?thesis by auto
qed



text \<open>
  Claim C9. Every successful booking appends notifications that are all unread and
  linked to the new appointment: exactly two, for the doctor and the patient, when no
  nurse is given, and exactly three, for the doctor, the patient and the nurse, when a
  nurse id is given (user ids start at 1, and Python reads the id 0 as no nurse).
\<close>
theorem create_appointment_notification_fan_out:
  assumes "create_appointment patient_id doctor_id dt tm reason nurse_id d = (Inr (Some ap, msg), d')"
  shows "\<exists>new. notifications d' = notifications d @ new \<and>
           (\<forall>n\<in>set new. \<not> n_is_read n \<and> n_appointment_id n = Some (a_id ap)) \<and>
           (nurse_id = None \<longrightarrow> length new = 2 \<and> map n_user_id new = [doctor_id, patient_id]) \<and>
           (\<forall>k. nurse_id = Some k \<and> k \<noteq> 0 \<longrightarrow>
                length new = 3 \<and> map n_user_id new = [doctor_id, patient_id, k])"
proof -
  from create_appointment_Some_D [OF assms] obtain p dr where
    op: "tm \<in> set (get_available_time_slots doctor_id dt d)" and
    u: "get_user patient_id d = Some p" "get_user doctor_id d = Some dr"
    by blast
  from create_appointment_success [OF op u, of reason nurse_id] assms
  obtain new where
    ap: "ap = new_appointment patient_id doctor_id dt tm reason nurse_id d" and
    n: "notifications d' = notifications d @ new"
       "\<forall>n\<in>set new. \<not> n_is_read n \<and> n_appointment_id n = Some (next_id (map a_id (appointments d)))"
       "map n_user_id new = (if truthy nurse_id then [doctor_id, patient_id, the nurse_id]
                             else [doctor_id, patient_id])"
    by auto
  have "length (map n_user_id new) = (if truthy nurse_id then 3 else 2)"
    unfolding n(3) by simp
  then have l: "length new = (if truthy nurse_id then 3 else 2)" by simp
  show ?thesis
    using n l unfolding ap by (intro exI [of _ new]) auto
qed

theorem create_appointment_notification_fan_out_witness:
  "(\<exists>ap msg d'. create_appointment 1 2 739047 ''09:00'' None (Some 3) ex_open = (Inr (Some ap, msg), d') \<and>
      map n_user_id (notifications d') = [2, 1, 3] \<and> map n_is_read (notifications d') = [False, False, False]) \<and>
   (\<exists>ap msg d'. create_appointment 1 2 739047 ''09:00'' None None ex_open = (Inr (Some ap, msg), d') \<and>
      map n_user_id (notifications d') = [2, 1] \<and> map n_is_read (notifications d') = [False, False])"
proof -
  have op: "''09:00'' \<in> set (get_available_time_slots 2 739047 ex_open)"
    by (simp add: ex_open_def get_available_time_slots_def)
  have u: "get_user 1 ex_open = Some \<lparr>u_id = 1, u_name = ''Pat'', u_role = ''patient''\<rparr>"
          "get_user 2 ex_open = Some \<lparr>u_id = 2, u_name = ''Dana'', u_role = ''doctor''\<rparr>"
    by (simp_all add: ex_open_def ex_users_def get_user_def)
  have e: "notifications ex_open = []" by (simp add: ex_open_def)
  have "\<exists>ap msg d'. create_appointment 1 2 739047 ''09:00'' None nurse ex_open = (Inr (Some ap, msg), d')" for nurse
    using create_appointment_success [OF op u, of None nurse] by blast
  then obtain ap3 msg3 d3 ap2 msg2 d2 where
    r3: "create_appointment 1 2 739047 ''09:00'' None (Some 3) ex_open = (Inr (Some ap3, msg3), d3)" and
    r2: "create_appointment 1 2 739047 ''09:00'' None None ex_open = (Inr (Some ap2, msg2), d2)"
    by blast
  from create_appointment_notification_fan_out [OF r3]
  have a3: "map n_user_id (notifications d3) = [2, 1, 3] \<and>
            map n_is_read (notifications d3) = [False, False, False]"
    by (auto simp: e length_Suc_conv eval_nat_numeral)
  from create_appointment_notification_fan_out [OF r2]
  have a2: "map n_user_id (notifications d2) = [2, 1] \<and>
            map n_is_read (notifications d2) = [False, False]"
    by (auto simp: e length_Suc_conv eval_nat_numeral)
  show ?thesis
  proof (intro conjI)
    show "\<exists>ap msg d'. create_appointment 1 2 739047 ''09:00'' None (Some 3) ex_open = (Inr (Some ap, msg), d') \<and>
      map n_user_id (notifications d') = [2, 1, 3] \<and> map n_is_read (notifications d') = [False, False, False]"
      using r3 a3 by (intro exI [of _ ap3] exI [of _ msg3] exI [of _ d3]) simp
    show "\<exists>ap msg d'. create_appointment 1 2 739047 ''09:00'' None None ex_open = (Inr (Some ap, msg), d') \<and>
      map n_user_id (notifications d') = [2, 1] \<and> map n_is_read (notifications d') = [False, False]"
      using r2 a2 by (intro exI [of _ ap2] exI [of _ msg2] exI [of _ d2]) simp
  qed
qed

text \<open>
  Claim C10, as stated, fails for a patient id that references no user: the slot is
  open, yet the call ends with AttributeError when the doctor's notification reads
  \<open>appointment.patient.name\<close>.
\<close>

theorem create_appointment_unknown_patient_counterexample:
  "''09:00'' \<in> set (get_available_time_slots 2 739047 ex_open) \<and>
   get_user 99 ex_open = None \<and>
   fst (create_appointment 99 2 739047 ''09:00'' None None ex_open) = Inl AttributeError"
  by (simp add: create_appointment_def create_appointment_notifications_def get_available_time_slots_def
      ex_open_def ex_users_def get_user_def set_slot_flag_def slot_at_def Let_def next_id_def)

text \<open>
  Claim C10, amended. For every patient id and doctor id that reference users, whatever
  their roles, and for every date, past dates included, \<open>create_appointment\<close>
  succeeds whenever a slot record with that doctor, date and time exists with
  \<open>is_available\<close> true.
\<close>

theorem create_appointment_only_checks_slot:
  assumes "get_user patient_id d \<noteq> None" and "get_user doctor_id d \<noteq> None"
    and "\<exists>s\<in>set (slots d). slot_at doctor_id dt tm s \<and> s_is_available s"
  shows "\<exists>ap d'. create_appointment patient_id doctor_id dt tm reason nurse_id d =
                   (Inr (Some ap, ''Appointment scheduled successfully''), d') \<and>
                 a_status ap = ''scheduled'' \<and> ap \<in> set (appointments d')"
proof -
  from assms(3) have op: "tm \<in> set (get_available_time_slots doctor_id dt d)"
    by (simp add: is_open_iff)
  from assms(1,2) obtain p dr where
    "get_user patient_id d = Some p" "get_user doctor_id d = Some dr" by auto
  from create_appointment_success [OF op this, of reason nurse_id]
  show ?thesis by auto
qed

theorem create_appointment_only_checks_slot_witness:
  "get_user 3 ex_past \<noteq> None \<and> get_user 4 ex_past \<noteq> None \<and>
   map u_role (filter (\<lambda>u. u_id u = 3 \<or> u_id u = 4) (users ex_past)) = [''nurse'', ''patient''] \<and>
   (\<exists>s\<in>set (slots ex_past). slot_at 4 1 ''09:00'' s \<and> s_is_available s) \<and>
   (\<exists>ap d'. create_appointment 3 4 1 ''09:00'' None None ex_past =
               (Inr (Some ap, ''Appointment scheduled successfully''), d') \<and>
             a_status ap = ''scheduled'' \<and> ap \<in> set (appointments d'))"
proof -
  have h1: "get_user 3 ex_past \<noteq> None" and h2: "get_user 4 ex_past \<noteq> None"
    by (simp_all add: ex_past_def ex_users_def get_user_def)
  have h3: "\<exists>s\<in>set (slots ex_past). slot_at 4 1 ''09:00'' s \<and> s_is_available s"
    by (simp add: ex_past_def slot_at_def)
  have r: "map u_role (filter (\<lambda>u. u_id u = 3 \<or> u_id u = 4) (users ex_past)) = [''nurse'', ''patient'']"
    by (simp add: ex_past_def ex_users_def)
  show ?thesis
    using h1 h2 h3 r create_appointment_only_checks_slot [OF h1 h2 h3, of None None] by blast
qed

subsection \<open>Default schedule\<close>

lemma date_add_in_range:
  "0 < dt + n \<Longrightarrow> dt + n \<le> date_max \<Longrightarrow> date_add dt n = Inr (dt + n)"
  by (simp add: date_add_def)

lemma schedule_loop_rows:
  assumes "0 < current_date" and "end_date < date_max"
  shows "\<exists>new. schedule_loop doctor_id current_date end_date d =
                  Inr (d\<lparr>schedules := schedules d @ new\<rparr>) \<and>
               map ds_date new = filter (\<lambda>x. weekday x < 5) [current_date..end_date] \<and>
               (\<forall>r\<in>set new. ds_doctor_id r = doctor_id \<and> ds_start_time r = ''09:00'' \<and>
                   ds_end_time r = ''17:00'' \<and> ds_is_available r)"
  using assms
proof (induction doctor_id current_date end_date d rule: schedule_loop.induct)
  case (1 doctor_id current_date end_date d)
  show ?case
  proof (cases "current_date \<le> end_date")
    case False
    then have "schedule_loop doctor_id current_date end_date d = Inr d"
      by (simp add: schedule_loop.simps [of doctor_id current_date end_date d])
    with False show ?thesis by (intro exI [of _ "[]"]) simp
  next
    case True
    let ?d1 = "if weekday current_date < 5 then add_schedule doctor_id current_date d else d"
    have nxt: "date_add current_date 1 = Inr (current_date + 1)"
      using True "1.prems" by (intro date_add_in_range) auto
    have unfold: "schedule_loop doctor_id current_date end_date d =
                    schedule_loop doctor_id (current_date + 1) end_date ?d1"
      using True nxt by (simp add: schedule_loop.simps [of doctor_id current_date end_date d] Let_def)
    from "1.IH" [OF True refl nxt] "1.prems"
    obtain new where
      r: "schedule_loop doctor_id (current_date + 1) end_date ?d1 =
            Inr (?d1\<lparr>schedules := schedules ?d1 @ new\<rparr>)" and
      dates: "map ds_date new = filter (\<lambda>x. weekday x < 5) [current_date + 1..end_date]" and
      rows: "\<forall>r\<in>set new. ds_doctor_id r = doctor_id \<and> ds_start_time r = ''09:00'' \<and>
                   ds_end_time r = ''17:00'' \<and> ds_is_available r"
      by auto
    have up: "[current_date..end_date] = current_date # [current_date + 1..end_date]"
      using True by (simp add: upto_rec1)
    show ?thesis
    proof (cases "weekday current_date < 5")
      case False
      with unfold r dates rows up show ?thesis
        by (intro exI [of _ new]) simp
    next
      case wd: True
      let ?row = "\<lparr>ds_id = next_id (map ds_id (schedules d)), ds_doctor_id = doctor_id,
                   ds_date = current_date, ds_start_time = ''09:00'', ds_end_time = ''17:00'',
                   ds_is_available = True\<rparr>"
      from wd unfold r dates rows up show ?thesis
        by (intro exI [of _ "?row # new"]) (simp add: add_schedule_def)
    qed
  qed
qed

lemma weekday_filter_saturday:
  assumes "weekday today = 5"
  shows "filter (\<lambda>x. weekday x < 5) [today..today + 30] =
           (today + 2) # filter (\<lambda>x. weekday x < 5) [today + 3..today + 30]"
proof -
  have "[today..today + 30] = today # [today + 1..today + 30]"
    by (rule upto_rec1) simp
  also have "[today + 1..today + 30] = (today + 1) # [today + 1 + 1..today + 30]"
    by (rule upto_rec1) simp
  also have "[today + 1 + 1..today + 30] = (today + 1 + 1) # [today + 1 + 1 + 1..today + 30]"
    by (rule upto_rec1) simp
  finally have "[today..today + 30] = today # (today + 1) # (today + 2) # [today + 3..today + 30]"
    by (simp add: add.assoc)
  moreover from assms have "weekday (today + 1) = 6" "weekday (today + 2) = 0"
    unfolding weekday_def by presburger+
  ultimately show ?thesis using assms by simp
qed

text \<open>
  Claim C8. For a current date whose 31-day window ends before the last day Python's
  \<open>date\<close> can represent, \<open>create_default_schedule\<close> appends one schedule row with
  start 09:00, end 17:00 and \<open>is_available\<close> true for each day of the inclusive window
  from today to today + 30 whose weekday is Monday (0) to Friday (4), in order, and no
  row for a Saturday (5) or Sunday (6): the dates of the new rows are pairwise distinct,
  they are exactly the weekdays of the window, and their number is the number of
  weekdays in the window. When today is a Saturday, the first row is dated two days
  later, the following Monday.
\<close>

theorem create_default_schedule_weekdays:
  assumes "0 < today" and "today + 30 < date_max"
  shows "\<exists>new. create_default_schedule doctor_id today d =
                  (Inr (), d\<lparr>schedules := schedules d @ new\<rparr>) \<and>
           map ds_date new = filter (\<lambda>x. weekday x < 5) [today..today + 30] \<and>
           (\<forall>r\<in>set new. ds_doctor_id r = doctor_id \<and> ds_start_time r = ''09:00'' \<and>
               ds_end_time r = ''17:00'' \<and> ds_is_available r) \<and>
           distinct (map ds_date new) \<and>
           set (map ds_date new) = {x. today \<le> x \<and> x \<le> today + 30 \<and> weekday x < 5} \<and>
           length new = card {x. today \<le> x \<and> x \<le> today + 30 \<and> weekday x < 5} \<and>
           (weekday today = 5 \<longrightarrow> new \<noteq> [] \<and> ds_date (hd new) = today + 2)"
proof -
  have e: "date_add today 30 = Inr (today + 30)"
    using assms by (intro date_add_in_range) auto
  from schedule_loop_rows [OF assms, of doctor_id d] obtain new where
    r: "schedule_loop doctor_id today (today + 30) d = Inr (d\<lparr>schedules := schedules d @ new\<rparr>)" and
    dates: "map ds_date new = filter (\<lambda>x. weekday x < 5) [today..today + 30]" and
    rows: "\<forall>r\<in>set new. ds_doctor_id r = doctor_id \<and> ds_start_time r = ''09:00'' \<and>
                   ds_end_time r = ''17:00'' \<and> ds_is_available r"
    by blast
  have c: "create_default_schedule doctor_id today d = (Inr (), d\<lparr>schedules := schedules d @ new\<rparr>)"
    by (simp add: create_default_schedule_def e r)
  have dist: "distinct (map ds_date new)"
    unfolding dates by simp
  have st: "set (map ds_date new) = {x. today \<le> x \<and> x \<le> today + 30 \<and> weekday x < 5}"
    unfolding dates by auto
  have "length new = length (map ds_date new)" by simp
  also have "\<dots> = card (set (map ds_date new))"
    using dist by (simp only: distinct_card)
  finally have len: "length new = card {x. today \<le> x \<and> x \<le> today + 30 \<and> weekday x < 5}"
    unfolding st .
  have sat: "new \<noteq> [] \<and> ds_date (hd new) = today + 2" if "weekday today = 5"
  proof -
    from dates weekday_filter_saturday [OF that]
    have m: "map ds_date new = (today + 2) # filter (\<lambda>x. weekday x < 5) [today + 3..today + 30]"
      by simp
    then show ?thesis by (cases new) auto
  qed
  from c dates rows dist st len sat show ?thesis
    by (intro exI [of _ new]) blast
qed

theorem create_default_schedule_weekdays_witness:
  "(0::int) < 739045 \<and> 739045 + 30 < date_max \<and> weekday 739045 = 5 \<and>
   (\<exists>new. create_default_schedule 2 739045 ex_open =
              (Inr (), ex_open\<lparr>schedules := schedules ex_open @ new\<rparr>) \<and>
           length new = 21 \<and> ds_date (hd new) = 739047 \<and>
           (\<forall>r\<in>set new. weekday (ds_date r) < 5 \<and> ds_start_time r = ''09:00'' \<and>
               ds_end_time r = ''17:00'' \<and> ds_is_available r))"
proof -
  have h1: "(0::int) < 739045" by simp
  have h2: "(739045::int) + 30 < date_max" by (simp add: date_max_def)
  have h3: "weekday 739045 = 5" by (simp add: weekday_def)
  have n: "length (filter (\<lambda>x. weekday x < 5) [739045..739045 + 30]) = 21"
    by (simp add: weekday_def upto_rec1)
  from create_default_schedule_weekdays [OF h1 h2, of 2 ex_open] obtain new where
    c: "create_default_schedule 2 739045 ex_open =
              (Inr (), ex_open\<lparr>schedules := schedules ex_open @ new\<rparr>)" and
    dates: "map ds_date new = filter (\<lambda>x. weekday x < 5) [739045..739045 + 30]" and
    rows: "\<forall>r\<in>set new. ds_doctor_id r = 2 \<and> ds_start_time r = ''09:00'' \<and>
               ds_end_time r = ''17:00'' \<and> ds_is_available r" and
    st: "set (map ds_date new) = {x. 739045 \<le> x \<and> x \<le> 739045 + 30 \<and> weekday x < 5}" and
    sat: "weekday 739045 = 5 \<longrightarrow> new \<noteq> [] \<and> ds_date (hd new) = 739045 + 2"
    by blast
  have "length new = length (map ds_date new)" by simp
  also have "\<dots> = 21" unfolding dates by (rule n)
  finally have len: "length new = 21" .
  have wd: "\<forall>r\<in>set new. weekday (ds_date r) < 5"
    using st by auto
  from h1 h2 h3 c len sat wd rows show ?thesis
    by (intro conjI exI [of _ new]) auto
qed

subsection \<open>Slot toggle\<close>

lemma find_append_None: "find P xs = None \<Longrightarrow> find P (xs @ ys) = find P ys"
  by (induction xs) (auto split: if_splits)

lemma length_update_first [simp]: "length (update_first P f xs) = length xs"
  by (induction xs) auto

lemma update_first_append_None:
  "find P xs = None \<Longrightarrow> update_first P f (xs @ ys) = xs @ update_first P f ys"
  by (induction xs) (auto split: if_splits)

lemma find_slot_at_None:
  "find (slot_at doctor_id dt tm) xs = None \<longleftrightarrow> filter (slot_at doctor_id dt tm) xs = []"
  by (induction xs) auto

lemma filter_update_first_flag:
  "length (filter (slot_at doctor_id dt tm)
      (update_first (slot_at doctor_id dt tm) (\<lambda>s. s\<lparr>s_is_available := flag\<rparr>) xs)) =
   length (filter (slot_at doctor_id dt tm) xs)"
  by (induction xs) (auto simp: slot_at_def)

lemma toggle_slot_doctor:
  "sess_role se = ''doctor'' \<Longrightarrow>
   toggle_slot (Some se) dt tm flag d =
     (Inr (Json True),
      (case find (slot_at (sess_user_id se) dt tm) (slots d) of
         Some s \<Rightarrow> d\<lparr>slots := update_first (slot_at (sess_user_id se) dt tm)
                                (\<lambda>s. s\<lparr>s_is_available := flag\<rparr>) (slots d)\<rparr>
       | None \<Rightarrow> d\<lparr>slots := slots d @
                      [\<lparr>s_id = next_id (map s_id (slots d)), s_doctor_id = sess_user_id se,
                        s_date = dt, s_time = tm, s_is_available = flag\<rparr>]\<rparr>))"
  by (simp add: toggle_slot_def role_required_def)

lemma update_first_twice:
  "update_first P (\<lambda>s. s\<lparr>s_is_available := flag\<rparr>)
     (update_first P (\<lambda>s. s\<lparr>s_is_available := flag\<rparr>) xs) =
   update_first P (\<lambda>s. s\<lparr>s_is_available := flag\<rparr>) xs"
  if "\<And>s b. P (s\<lparr>s_is_available := b\<rparr>) = P s" for P :: "slot \<Rightarrow> bool"
  using that by (induction xs) auto

lemma slot_at_flag [simp]: "slot_at doctor_id dt tm (s\<lparr>s_is_available := b\<rparr>) = slot_at doctor_id dt tm s"
  by (simp add: slot_at_def)

lemma find_update_first_flag:
  "find (slot_at doctor_id dt tm)
     (update_first (slot_at doctor_id dt tm) (\<lambda>s. s\<lparr>s_is_available := flag\<rparr>) xs) =
   map_option (\<lambda>s. s\<lparr>s_is_available := flag\<rparr>) (find (slot_at doctor_id dt tm) xs)"
  by (induction xs) auto

text \<open>
  Claim C7. For a doctor's session, \<open>toggle_slot\<close> is an idempotent upsert on the key
  (session's doctor, date, time): when no record with the key exists it appends one
  with the given flag, otherwise it overwrites the flag of the record found and leaves
  the number of records with that key as it was, so it never adds a second one;
  applying it twice gives the same store as applying it once. The slot is open, that is
  its time is among \<open>get_available_time_slots\<close>, exactly when some record with the key
  has \<open>is_available\<close> true; after setting the slot available it is open, and in a store
  with at most one record per key, after closing it is not open.
\<close>

theorem toggle_slot_idempotent_upsert:
  assumes "sess_role se = ''doctor''"
  shows "(\<forall>d'. toggle_slot (Some se) dt tm flag d = (Inr (Json True), d') \<longrightarrow>
            (filter (slot_at (sess_user_id se) dt tm) (slots d) = [] \<longrightarrow>
               slots d' = slots d @
                 [\<lparr>s_id = next_id (map s_id (slots d)), s_doctor_id = sess_user_id se,
                   s_date = dt, s_time = tm, s_is_available = flag\<rparr>]) \<and>
            (filter (slot_at (sess_user_id se) dt tm) (slots d) \<noteq> [] \<longrightarrow>
               slots d' = update_first (slot_at (sess_user_id se) dt tm)
                            (\<lambda>s. s\<lparr>s_is_available := flag\<rparr>) (slots d) \<and>
               length (filter (slot_at (sess_user_id se) dt tm) (slots d')) =
                 length (filter (slot_at (sess_user_id se) dt tm) (slots d))) \<and>
            toggle_slot (Some se) dt tm flag d' = (Inr (Json True), d') \<and>
            (flag \<longrightarrow> tm \<in> set (get_available_time_slots (sess_user_id se) dt d')) \<and>
            (\<not> flag \<and> distinct (map slot_key (slots d)) \<longrightarrow>
               tm \<notin> set (get_available_time_slots (sess_user_id se) dt d'))) \<and>
         (\<exists>d'. toggle_slot (Some se) dt tm flag d = (Inr (Json True), d')) \<and>
         (\<forall>doctor_id. tm \<in> set (get_available_time_slots doctor_id dt d) \<longleftrightarrow>
            (\<exists>s\<in>set (slots d). slot_at doctor_id dt tm s \<and> s_is_available s))"
proof (intro conjI allI impI)
  show "\<exists>d'. toggle_slot (Some se) dt tm flag d = (Inr (Json True), d')"
    by (simp add: toggle_slot_doctor [OF assms])
  show "tm \<in> set (get_available_time_slots doctor_id dt d) \<longleftrightarrow>
            (\<exists>s\<in>set (slots d). slot_at doctor_id dt tm s \<and> s_is_available s)" for doctor_id
    by (rule is_open_iff)
next
  fix d'
  assume t: "toggle_slot (Some se) dt tm flag d = (Inr (Json True), d')"
  let ?P = "slot_at (sess_user_id se) dt tm"
  let ?new = "\<lparr>s_id = next_id (map s_id (slots d)), s_doctor_id = sess_user_id se,
                   s_date = dt, s_time = tm, s_is_available = flag\<rparr>"
  have absent: "d' = d\<lparr>slots := slots d @ [?new]\<rparr>" if "filter ?P (slots d) = []"
    using t that by (simp add: toggle_slot_doctor [OF assms] find_slot_at_None [symmetric])
  have present: "d' = d\<lparr>slots := update_first ?P (\<lambda>s. s\<lparr>s_is_available := flag\<rparr>) (slots d)\<rparr>"
    if "filter ?P (slots d) \<noteq> []"
    using t that by (auto simp: toggle_slot_doctor [OF assms] find_slot_at_None [symmetric])
  show "slots d' = slots d @ [?new]" if "filter ?P (slots d) = []"
    using absent [OF that] by simp
  show "slots d' = update_first ?P (\<lambda>s. s\<lparr>s_is_available := flag\<rparr>) (slots d)"
    if "filter ?P (slots d) \<noteq> []"
    using present [OF that] by simp
  show "length (filter ?P (slots d')) = length (filter ?P (slots d))"
    if "filter ?P (slots d) \<noteq> []"
    using present [OF that] by (simp add: filter_update_first_flag)
  have new_at: "?P ?new" by (simp add: slot_at_def)
  show "toggle_slot (Some se) dt tm flag d' = (Inr (Json True), d')"
  proof (cases "filter ?P (slots d) = []")
    case True
    then have "find ?P (slots d) = None" by (simp add: find_slot_at_None)
    then have "find ?P (slots d') = Some ?new"
      and "update_first ?P (\<lambda>s. s\<lparr>s_is_available := flag\<rparr>) (slots d @ [?new]) = slots d @ [?new]"
      using absent [OF True] new_at by (simp_all add: find_append_None update_first_append_None)
    then show ?thesis
      using absent [OF True] by (simp add: toggle_slot_doctor [OF assms])
  next
    case False
    then obtain s where "find ?P (slots d) = Some s"
      by (auto simp: find_slot_at_None [symmetric])
    then show ?thesis
      using present [OF False]
      by (simp add: toggle_slot_doctor [OF assms] find_update_first_flag update_first_twice)
  qed
  show "tm \<in> set (get_available_time_slots (sess_user_id se) dt d')" if flag
  proof (cases "filter ?P (slots d) = []")
    case True
    with absent that show ?thesis by (simp add: is_open_iff slot_at_def)
  next
    case False
    have "\<exists>s\<in>set (update_first ?P (\<lambda>s. s\<lparr>s_is_available := True\<rparr>) xs). ?P s \<and> s_is_available s"
      if "filter ?P xs \<noteq> []" for xs
      using that by (induction xs) (auto split: if_splits)
    from this [OF False] present [OF False] that show ?thesis
      by (simp add: is_open_iff)
  qed
  show "tm \<notin> set (get_available_time_slots (sess_user_id se) dt d')"
    if "\<not> flag \<and> distinct (map slot_key (slots d))"
  proof (cases "filter ?P (slots d) = []")
    case True
    then have "\<forall>s\<in>set (slots d). \<not> ?P s" by (simp add: filter_empty_conv)
    with absent [OF True] that show ?thesis by (auto simp: is_open_iff)
  next
    case False
    from that have "update_first ?P (\<lambda>s. s\<lparr>s_is_available := flag\<rparr>) (slots d) =
                      map (\<lambda>x. if ?P x then x\<lparr>s_is_available := flag\<rparr> else x) (slots d)"
      by (intro update_first_distinct [where g = slot_key]) (simp_all add: slot_at_key)
    with present [OF False] that show ?thesis
      by (auto simp: is_open_iff split: if_splits)
  qed
qed

theorem toggle_slot_idempotent_upsert_witness:
  "sess_role (the doctor_session) = ''doctor'' \<and>
   distinct (map slot_key (slots ex_open)) \<and>
   (\<exists>d1 d2. toggle_slot doctor_session 739047 ''09:00'' False ex_open = (Inr (Json True), d1) \<and>
      length (slots d1) = 1 \<and> ''09:00'' \<notin> set (get_available_time_slots 2 739047 d1) \<and>
      toggle_slot doctor_session 739047 ''10:00'' True ex_open = (Inr (Json True), d2) \<and>
      length (slots d2) = 2 \<and> ''10:00'' \<in> set (get_available_time_slots 2 739047 d2) \<and>
      toggle_slot doctor_session 739047 ''10:00'' True d2 = (Inr (Json True), d2))"
proof -
  have se: "doctor_session = Some \<lparr>sess_user_id = 2, sess_role = ''doctor'', sess_name = ''Dana''\<rparr>"
    by (simp add: doctor_session_def)
  have h: "sess_role \<lparr>sess_user_id = 2, sess_role = ''doctor'', sess_name = ''Dana''\<rparr> = ''doctor''"
    by simp
  have dist: "distinct (map slot_key (slots ex_open))"
    by (simp add: ex_open_def)
  have f1: "filter (slot_at 2 739047 ''09:00'') (slots ex_open) \<noteq> []"
   and f2: "filter (slot_at 2 739047 ''10:00'') (slots ex_open) = []"
   and len: "length (slots ex_open) = 1"
    by (simp_all add: ex_open_def slot_at_def)
  note a = toggle_slot_idempotent_upsert [OF h, of 739047 "''09:00''" False ex_open]
  note b = toggle_slot_idempotent_upsert [OF h, of 739047 "''10:00''" True ex_open]
  from a obtain d1 where d1: "toggle_slot doctor_session 739047 ''09:00'' False ex_open = (Inr (Json True), d1)"
    unfolding se by auto
  from b obtain d2 where d2: "toggle_slot doctor_session 739047 ''10:00'' True ex_open = (Inr (Json True), d2)"
    unfolding se by auto
  from a d1 f1 dist have p1: "length (slots d1) = 1 \<and> ''09:00'' \<notin> set (get_available_time_slots 2 739047 d1)"
    unfolding se by (auto simp: len)
  from b d2 f2 have p2: "length (slots d2) = 2 \<and> ''10:00'' \<in> set (get_available_time_slots 2 739047 d2) \<and>
      toggle_slot doctor_session 739047 ''10:00'' True d2 = (Inr (Json True), d2)"
    unfolding se by (auto simp: len)
  show ?thesis
    using dist d1 d2 p1 p2 unfolding se by (intro conjI exI [of _ d1] exI [of _ d2]) simp_all
qed

subsection \<open>Cancellation\<close>

lemmas handler_defs =
  role_required_def get_appointment_def get_user_def set_slot_flag_def delete_appointment_def
  add_notification_def next_id_def slot_at_def get_available_time_slots_def Let_def

text \<open>
  Claim C2, evaluated on the booked example store. The patient's cancel handler reopens
  the slot but deletes the appointment row, so no appointment with status
  \<open>cancelled\<close> remains; \<open>cancel_appointment\<close> of models.py keeps the row with status
  \<open>cancelled\<close> but leaves the slot closed.
\<close>

theorem cancel_paths_on_booked_store:
  "map a_status (appointments ex_booked) = [''scheduled''] \<and>
   get_available_time_slots 2 739047 ex_booked = [''10:00''] \<and>
   appointments (snd (cancel_appointment_route patient_session 1 ex_booked)) = [] \<and>
   get_available_time_slots 2 739047 (snd (cancel_appointment_route patient_session 1 ex_booked)) =
     [''09:00'', ''10:00''] \<and>
   fst (cancel_appointment 1 ex_booked) = Inr True \<and>
   map a_status (appointments (snd (cancel_appointment 1 ex_booked))) = [''cancelled''] \<and>
   get_available_time_slots 2 739047 (snd (cancel_appointment 1 ex_booked)) = [''10:00'']"
  by (simp add: ex_booked_def ex_users_def patient_session_def cancel_appointment_route_def
      cancel_appointment_def handler_defs)

text \<open>
  Claim C4, evaluated on the booked example store. The doctor's update with status
  \<open>cancelled\<close> only rewrites notes and status: the slot stays closed and no notification
  is added, and the resulting store differs from the one the patient's cancel handler
  produces.
\<close>

theorem doctor_cancel_on_booked_store:
  "map a_status (appointments (snd (doctor_appointment_detail doctor_session 1 ''ill'' ''cancelled'' ex_booked))) =
     [''cancelled''] \<and>
   slots (snd (doctor_appointment_detail doctor_session 1 ''ill'' ''cancelled'' ex_booked)) = slots ex_booked \<and>
   get_available_time_slots 2 739047
     (snd (doctor_appointment_detail doctor_session 1 ''ill'' ''cancelled'' ex_booked)) = [''10:00''] \<and>
   notifications (snd (doctor_appointment_detail doctor_session 1 ''ill'' ''cancelled'' ex_booked)) =
     notifications ex_booked \<and>
   snd (doctor_appointment_detail doctor_session 1 ''ill'' ''cancelled'' ex_booked) \<noteq>
     snd (cancel_appointment_route patient_session 1 ex_booked)"
proof -
  have a: "appointments (snd (cancel_appointment_route patient_session 1 ex_booked)) = []"
    by (simp add: ex_booked_def patient_session_def cancel_appointment_route_def handler_defs)
  have b: "map a_status (appointments (snd (doctor_appointment_detail doctor_session 1 ''ill'' ''cancelled'' ex_booked))) =
     [''cancelled'']"
    by (simp add: ex_booked_def doctor_session_def doctor_appointment_detail_def handler_defs)
  from a b have "snd (doctor_appointment_detail doctor_session 1 ''ill'' ''cancelled'' ex_booked) \<noteq>
     snd (cancel_appointment_route patient_session 1 ex_booked)"
    by auto
  moreover have "slots (snd (doctor_appointment_detail doctor_session 1 ''ill'' ''cancelled'' ex_booked)) = slots ex_booked"
    "get_available_time_slots 2 739047
     (snd (doctor_appointment_detail doctor_session 1 ''ill'' ''cancelled'' ex_booked)) = [''10:00'']"
    "notifications (snd (doctor_appointment_detail doctor_session 1 ''ill'' ''cancelled'' ex_booked)) =
     notifications ex_booked"
    by (simp_all add: ex_booked_def doctor_session_def doctor_appointment_detail_def handler_defs)
  ultimately show ?thesis using b by simp
qed

subsection \<open>Ownership checks\<close>

lemma create_appointment_notifications_store:
  "create_appointment_notifications ap d = Inr d' \<Longrightarrow> \<exists>ns. d' = d\<lparr>notifications := ns\<rparr>"
  unfolding create_appointment_notifications_def Let_def add_notification_def
  by (auto split: option.splits if_splits)

lemma create_appointment_store:
  "snd (create_appointment p dr dt tm r n d) = d \<or>
   (tm \<in> set (get_available_time_slots dr dt d) \<and>
    (\<exists>ns. snd (create_appointment p dr dt tm r n d) =
             (booked_store p dr dt tm r n d)\<lparr>notifications := ns\<rparr>))"
proof (cases "tm \<in> set (get_available_time_slots dr dt d)")
  case False
  then show ?thesis by (simp add: create_appointment_closed)
next
  case True
  show ?thesis
  proof (cases "create_appointment_notifications (new_appointment p dr dt tm r n d)
                  (booked_store p dr dt tm r n d)")
    case (Inl e)
    then have "snd (create_appointment p dr dt tm r n d) =
                 (booked_store p dr dt tm r n d)\<lparr>notifications := notifications (booked_store p dr dt tm r n d)\<rparr>"
      by (simp add: create_appointment_open [OF True])
    with True show ?thesis by blast
  next
    case (Inr d3)
    from create_appointment_notifications_store [OF this] Inr True show ?thesis
      by (auto simp: create_appointment_open [OF True])
  qed
qed

lemma book_appointment_store:
  "sess_role se = ''patient'' \<Longrightarrow>
   snd (book_appointment (Some se) rid dr dt tm reason d) =
     snd (create_appointment (sess_user_id se) dr dt tm (Some reason) None
       (if truthy rid
        then (case get_appointment (the rid) d of
                None \<Rightarrow> d
              | Some old \<Rightarrow>
                  if a_patient_id old = sess_user_id se
                  then delete_appointment old
                         (set_slot_flag (a_doctor_id old) (a_date old) (a_time old) True d)
                  else d)
        else d))"
  by (simp add: book_appointment_def role_required_def Let_def split: prod.split sum.split option.split)

lemma book_appointment_no_patient:
  "sess = None \<or> (\<exists>se. sess = Some se \<and> sess_role se \<noteq> ''patient'') \<Longrightarrow>
   snd (book_appointment sess rid dr dt tm reason d) = d"
  by (auto simp: book_appointment_def role_required_def)

lemma open_times_update_first_closed:
  "set (map s_time (filter (\<lambda>s. s_doctor_id s = x \<and> s_date s = y \<and> s_is_available s)
          (update_first P (\<lambda>s. s\<lparr>s_is_available := False\<rparr>) xs)))
   \<subseteq> set (map s_time (filter (\<lambda>s. s_doctor_id s = x \<and> s_date s = y \<and> s_is_available s) xs))"
  by (induction xs) auto

lemma create_appointment_keeps:
  "set (appointments d) \<subseteq> set (appointments (snd (create_appointment p dr dt tm r n d)))"
  "set (get_available_time_slots x y (snd (create_appointment p dr dt tm r n d)))
     \<subseteq> set (get_available_time_slots x y d)"
proof -
  let ?d' = "snd (create_appointment p dr dt tm r n d)"
  from create_appointment_store [of p dr dt tm r n d]
  consider "?d' = d" | ns where "?d' = (booked_store p dr dt tm r n d)\<lparr>notifications := ns\<rparr>"
    by blast
  then have "set (appointments d) \<subseteq> set (appointments ?d') \<and>
             set (get_available_time_slots x y ?d') \<subseteq> set (get_available_time_slots x y d)"
  proof cases
    case 1
    then show ?thesis by simp
  next
    case 2
    then have "appointments ?d' = appointments d @ [new_appointment p dr dt tm r n d]"
      and "get_available_time_slots x y ?d' =
             map s_time (filter (\<lambda>s. s_doctor_id s = x \<and> s_date s = y \<and> s_is_available s)
               (update_first (slot_at dr dt tm) (\<lambda>s. s\<lparr>s_is_available := False\<rparr>) (slots d)))"
      by (simp_all add: get_available_time_slots_def)
    then show ?thesis
      using open_times_update_first_closed [of x y "slot_at dr dt tm" "slots d"]
      by (auto simp: get_available_time_slots_def)
  qed
  then show "set (appointments d) \<subseteq> set (appointments ?d')"
    and "set (get_available_time_slots x y ?d') \<subseteq> set (get_available_time_slots x y d)"
    by simp_all
qed

text \<open>
  Claim C6, as stated, fails for rescheduling: patient 4 submits a booking with the
  reschedule id of the appointment that patient 1 owns, and a new appointment for
  patient 4 is created.
\<close>

theorem reschedule_by_other_patient_counterexample:
  "map a_patient_id (appointments ex_booked) = [1] \<and>
   map a_patient_id (appointments
      (snd (book_appointment other_patient_session (Some 1) 2 739047 ''10:00'' ''visit'' ex_booked))) = [1, 4]"
proof -
  have op: "''10:00'' \<in> set (get_available_time_slots 2 739047 ex_booked)"
    by (simp add: ex_booked_def get_available_time_slots_def)
  have u: "get_user 4 ex_booked = Some \<lparr>u_id = 4, u_name = ''Quinn'', u_role = ''patient''\<rparr>"
          "get_user 2 ex_booked = Some \<lparr>u_id = 2, u_name = ''Dana'', u_role = ''doctor''\<rparr>"
    by (simp_all add: ex_booked_def ex_users_def get_user_def)
  have g: "get_appointment 1 ex_booked =
             Some \<lparr>a_id = 1, a_patient_id = 1, a_doctor_id = 2, a_nurse_id = None,
                    a_date = 739047, a_time = ''09:00'', a_duration = 30,
                    a_status = ''scheduled'', a_reason = Some ''checkup'', a_notes = None,
                    a_checked_in = False\<rparr>"
    by (simp add: ex_booked_def get_appointment_def)
  have "snd (book_appointment other_patient_session (Some 1) 2 739047 ''10:00'' ''visit'' ex_booked) =
          snd (create_appointment 4 2 739047 ''10:00'' (Some ''visit'') None ex_booked)"
    using g by (simp add: other_patient_session_def book_appointment_store)
  moreover from create_appointment_success [OF op u, of "Some ''visit''" None]
  have "map a_patient_id (appointments (snd (create_appointment 4 2 739047 ''10:00'' (Some ''visit'') None ex_booked))) =
          map a_patient_id (appointments ex_booked) @ [4]"
    by auto
  moreover have "map a_patient_id (appointments ex_booked) = [1]"
    by (simp add: ex_booked_def)
  ultimately show ?thesis by simp
qed

text \<open>
  Claim C6, amended. When the session's user is not the patient of the referenced
  appointment, the cancel handler leaves the store unchanged (a patient gets the
  unauthorized message), and a booking request that carries the appointment's id as
  reschedule id is handled exactly as the same request without a reschedule id: the
  referenced appointment stays in the store unchanged and no slot is reopened, while the
  booking itself goes ahead for the session's user.
\<close>

theorem not_owner_cancel_and_reschedule:
  assumes "get_appointment aid d = Some old" and "a_patient_id old \<noteq> sess_user_id se"
  shows "snd (cancel_appointment_route (Some se) aid d) = d \<and>
         (sess_role se = ''patient'' \<longrightarrow>
            fst (cancel_appointment_route (Some se) aid d) =
              Inr (Redirect ''patient_dashboard'' (Some (''Unauthorized action.'', ''danger'')))) \<and>
         book_appointment (Some se) (Some aid) doctor_id dt tm reason d =
           book_appointment (Some se) None doctor_id dt tm reason d \<and>
         old \<in> set (appointments (snd (book_appointment (Some se) (Some aid) doctor_id dt tm reason d))) \<and>
         (\<forall>x y. set (get_available_time_slots x y
                      (snd (book_appointment (Some se) (Some aid) doctor_id dt tm reason d)))
                \<subseteq> set (get_available_time_slots x y d))"
proof (intro conjI allI)
  show "snd (cancel_appointment_route (Some se) aid d) = d"
    using assms by (simp add: cancel_appointment_route_def role_required_def)
  show "sess_role se = ''patient'' \<longrightarrow>
            fst (cancel_appointment_route (Some se) aid d) =
              Inr (Redirect ''patient_dashboard'' (Some (''Unauthorized action.'', ''danger'')))"
    using assms by (simp add: cancel_appointment_route_def role_required_def)
  show eq: "book_appointment (Some se) (Some aid) doctor_id dt tm reason d =
           book_appointment (Some se) None doctor_id dt tm reason d"
    using assms by (simp add: book_appointment_def role_required_def)
  have old: "old \<in> set (appointments d)"
    using assms(1) by (auto simp: get_appointment_def find_Some_iff)
  have store: "snd (book_appointment (Some se) None doctor_id dt tm reason d) = d \<or>
               snd (book_appointment (Some se) None doctor_id dt tm reason d) =
                 snd (create_appointment (sess_user_id se) doctor_id dt tm (Some reason) None d)"
    using book_appointment_store [of se None doctor_id dt tm reason d]
      book_appointment_no_patient [of "Some se" None doctor_id dt tm reason d]
    by (cases "sess_role se = ''patient''") auto
  with old create_appointment_keeps(1) [of d "sess_user_id se" doctor_id dt tm "Some reason" None]
  show "old \<in> set (appointments (snd (book_appointment (Some se) (Some aid) doctor_id dt tm reason d)))"
    unfolding eq by auto
  show "set (get_available_time_slots x y
                      (snd (book_appointment (Some se) (Some aid) doctor_id dt tm reason d)))
                \<subseteq> set (get_available_time_slots x y d)" for x y
    using store create_appointment_keeps(2) [of x y "sess_user_id se" doctor_id dt tm "Some reason" None d]
    unfolding eq by auto
qed

theorem not_owner_cancel_and_reschedule_witness:
  "get_appointment 1 ex_booked \<noteq> None \<and>
   a_patient_id (the (get_appointment 1 ex_booked)) \<noteq> sess_user_id (the other_patient_session) \<and>
   snd (cancel_appointment_route other_patient_session 1 ex_booked) = ex_booked \<and>
   book_appointment other_patient_session (Some 1) 2 739047 ''10:00'' ''visit'' ex_booked =
     book_appointment other_patient_session None 2 739047 ''10:00'' ''visit'' ex_booked \<and>
   the (get_appointment 1 ex_booked) \<in> set (appointments
      (snd (book_appointment other_patient_session (Some 1) 2 739047 ''10:00'' ''visit'' ex_booked)))"
proof -
  let ?old = "\<lparr>a_id = 1, a_patient_id = 1, a_doctor_id = 2, a_nurse_id = None,
               a_date = 739047, a_time = ''09:00'', a_duration = 30,
               a_status = ''scheduled'', a_reason = Some ''checkup'', a_notes = None,
               a_checked_in = False\<rparr>"
  let ?se = "\<lparr>sess_user_id = 4, sess_role = ''patient'', sess_name = ''Quinn''\<rparr>"
  have se: "other_patient_session = Some ?se"
    by (simp add: other_patient_session_def)
  have h1: "get_appointment 1 ex_booked = Some ?old"
    by (simp add: ex_booked_def get_appointment_def)
  have h2: "a_patient_id ?old \<noteq> sess_user_id ?se"
    by simp
  from not_owner_cancel_and_reschedule [OF h1 h2, of 2 739047 "''10:00''" "''visit''"] h1 h2
  show ?thesis unfolding se by auto
qed

subsection \<open>What each request does to the appointment and slot tables\<close>



lemma schedule_loop_store:
  "schedule_loop doctor_id current_date end_date d = Inr d' \<Longrightarrow> \<exists>rows. d' = d\<lparr>schedules := rows\<rparr>"
proof (induction doctor_id current_date end_date d rule: schedule_loop.induct)
  case (1 doctor_id current_date end_date d)
  show ?case
  proof (cases "current_date \<le> end_date")
    case False
    with "1.prems" have "d' = d"
      by (simp add: schedule_loop.simps [of doctor_id current_date end_date d])
    then show ?thesis by (intro exI [of _ "schedules d"]) simp
  next
    case True
    let ?d1 = "if weekday current_date < 5 then add_schedule doctor_id current_date d else d"
    from True "1.prems" obtain nxt where
      nxt: "date_add current_date 1 = Inr nxt" and
      r: "schedule_loop doctor_id nxt end_date ?d1 = Inr d'"
      by (auto simp: schedule_loop.simps [of doctor_id current_date end_date d] Let_def
          split: sum.splits)
    from "1.IH" [OF True refl nxt r] obtain rows where "d' = ?d1\<lparr>schedules := rows\<rparr>"
      by blast
    then show ?thesis
      by (intro exI [of _ rows]) (simp add: add_schedule_def)
  qed
qed

lemma create_default_schedule_store:
  "\<exists>rows. snd (create_default_schedule doctor_id today d) = d\<lparr>schedules := rows\<rparr>"
proof -
  have same: "\<exists>rows. d = d\<lparr>schedules := rows\<rparr>"
    by (intro exI [of _ "schedules d"]) simp
  show ?thesis
  proof (cases "date_add today 30")
    case (Inl e)
    with same show ?thesis by (simp add: create_default_schedule_def)
  next
    case (Inr end_date)
    show ?thesis
    proof (cases "schedule_loop doctor_id today end_date d")
      case (Inl e)
      with Inr same show ?thesis by (simp add: create_default_schedule_def)
    next
      case r: (Inr d')
      from schedule_loop_store [OF r] Inr r show ?thesis
        by (simp add: create_default_schedule_def)
    qed
  qed
qed

lemma toggle_slot_store:
  "snd (toggle_slot sess dt tm flag d) = d \<or>
   (\<exists>se. sess = Some se \<and> sess_role se = ''doctor'' \<and>
     snd (toggle_slot sess dt tm flag d) =
       (case find (slot_at (sess_user_id se) dt tm) (slots d) of
          Some s \<Rightarrow> d\<lparr>slots := update_first (slot_at (sess_user_id se) dt tm)
                                 (\<lambda>s. s\<lparr>s_is_available := flag\<rparr>) (slots d)\<rparr>
        | None \<Rightarrow> d\<lparr>slots := slots d @
                       [\<lparr>s_id = next_id (map s_id (slots d)), s_doctor_id = sess_user_id se,
                         s_date = dt, s_time = tm, s_is_available = flag\<rparr>]\<rparr>))"
  by (cases sess) (auto simp: toggle_slot_def role_required_def)

lemma cancel_route_store:
  "snd (cancel_appointment_route sess aid d) = d \<or>
   (\<exists>ap. get_appointment aid d = Some ap \<and>
      snd (cancel_appointment_route sess aid d) =
        delete_appointment ap (set_slot_flag (a_doctor_id ap) (a_date ap) (a_time ap) True d))"
  by (cases sess) (auto simp: cancel_appointment_route_def role_required_def split: option.splits)

lemma book_appointment_store_cases:
  "snd (book_appointment sess rid dr dt tm reason d) = d \<or>
   (\<exists>se. sess = Some se \<and>
      (snd (book_appointment sess rid dr dt tm reason d) =
         snd (create_appointment (sess_user_id se) dr dt tm (Some reason) None d) \<or>
       (\<exists>old. get_appointment (the rid) d = Some old \<and>
          snd (book_appointment sess rid dr dt tm reason d) =
            snd (create_appointment (sess_user_id se) dr dt tm (Some reason) None
              (delete_appointment old
                 (set_slot_flag (a_doctor_id old) (a_date old) (a_time old) True d))))))"
proof (cases sess)
  case None
  then show ?thesis by (simp add: book_appointment_no_patient)
next
  case (Some se)
  show ?thesis
  proof (cases "sess_role se = ''patient''")
    case False
    with Some show ?thesis by (simp add: book_appointment_no_patient)
  next
    case True
    from book_appointment_store [OF True, of rid dr dt tm reason d] Some show ?thesis
      by (auto split: option.splits if_splits)
  qed
qed

lemma doctor_update_store:
  "snd (doctor_appointment_detail sess aid notes status d) = d \<or>
   snd (doctor_appointment_detail sess aid notes status d) =
     d\<lparr>appointments := update_first (\<lambda>a. a_id a = aid)
          (\<lambda>a. a\<lparr>a_notes := Some notes, a_status := status\<rparr>) (appointments d)\<rparr>"
  by (cases sess)
     (auto simp: doctor_appointment_detail_def role_required_def split: option.splits)

lemma check_in_tables:
  "slots (snd (check_in_patient sess aid d)) = slots d \<and>
   (appointments (snd (check_in_patient sess aid d)) = appointments d \<or>
    appointments (snd (check_in_patient sess aid d)) =
      update_first (\<lambda>a. a_id a = aid) (\<lambda>a. a\<lparr>a_checked_in := True\<rparr>) (appointments d))"
  by (cases sess)
     (auto simp: check_in_patient_def role_required_def Let_def add_notification_def
       split: option.splits)

lemma model_cancel_tables:
  "slots (snd (cancel_appointment aid d)) = slots d \<and>
   (appointments (snd (cancel_appointment aid d)) = appointments d \<or>
    appointments (snd (cancel_appointment aid d)) =
      update_first (\<lambda>a. a_id a = aid) (\<lambda>a. a\<lparr>a_status := ''cancelled''\<rparr>) (appointments d))"
  by (auto simp: cancel_appointment_def Let_def add_notification_def get_user_def
       split: option.splits)

subsection \<open>Appointment status\<close>

lemma delete_appointment_tables [simp]:
  "appointments (delete_appointment ap d) = remove_first (\<lambda>a. a_id a = a_id ap) (appointments d)"
  "slots (delete_appointment ap d) = slots d"
  by (simp_all add: delete_appointment_def)






subsection \<open>Coupling of appointments and slots\<close>




















subsection \<open>Limits of the date range, unknown ids, and the doctor's update\<close>

text \<open>
  When the window of the default schedule reaches or passes the last representable
  date, the date arithmetic raises OverflowError and nothing is stored: either
  \<open>today + 30\<close> is out of range, or the increment after the last day of the window is.
\<close>

lemma schedule_loop_overflow:
  "0 < current_date \<Longrightarrow> current_date \<le> end_date \<Longrightarrow> end_date = date_max \<Longrightarrow>
   schedule_loop doctor_id current_date end_date d = Inl OverflowError"
proof (induction doctor_id current_date end_date d rule: schedule_loop.induct)
  case (1 doctor_id current_date end_date d)
  let ?d1 = "if weekday current_date < 5 then add_schedule doctor_id current_date d else d"
  show ?case
  proof (cases "current_date = date_max")
    case True
    then have "date_add current_date 1 = Inl OverflowError"
      by (simp add: date_add_def)
    with "1.prems" show ?thesis
      by (subst schedule_loop.simps) (simp add: Let_def)
  next
    case False
    with "1.prems" have nxt: "date_add current_date 1 = Inr (current_date + 1)"
      by (intro date_add_in_range) auto
    from False "1.prems" have "0 < current_date + 1" "current_date + 1 \<le> end_date"
      by auto
    from "1.IH" [OF "1.prems"(2) refl nxt this "1.prems"(3)] nxt "1.prems"(2)
    show ?thesis
      by (subst schedule_loop.simps) (simp add: Let_def)
  qed
qed

lemma create_default_schedule_overflow:
  assumes "0 < today" and "date_max \<le> today + 30"
  shows "create_default_schedule doctor_id today d = (Inl OverflowError, d)"
proof (cases "today + 30 = date_max")
  case True
  with assms have "date_add today 30 = Inr date_max"
    by (simp add: date_add_def)
  moreover from assms True have "schedule_loop doctor_id today date_max d = Inl OverflowError"
    by (intro schedule_loop_overflow) auto
  ultimately show ?thesis by (simp add: create_default_schedule_def)
next
  case False
  with assms have "date_add today 30 = Inl OverflowError"
    by (simp add: date_add_def)
  then show ?thesis by (simp add: create_default_schedule_def)
qed

text \<open>
  Cancelling an appointment id that does not exist changes nothing on either path: the
  handler answers 404 and \<open>cancel_appointment\<close> returns \<open>False\<close>.
\<close>

lemma cancel_unknown_appointment:
  assumes "get_appointment aid d = None"
  shows "cancel_appointment aid d = (Inr False, d)"
    and "snd (cancel_appointment_route sess aid d) = d"
    and "sess_role se = ''patient'' \<Longrightarrow> cancel_appointment_route (Some se) aid d = (Inl NotFound, d)"
  using assms
  by (auto simp: cancel_appointment_def cancel_appointment_route_def role_required_def
      split: option.splits)

text \<open>
  On every store the two cancellation paths each leave one half undone: the patient's
  handler removes the appointment row it cancels, and \<open>cancel_appointment\<close> never touches
  a slot. The doctor's update never touches a slot or a notification either.
\<close>

lemma cancel_route_deletes_row:
  assumes "get_appointment aid d = Some ap" and "a_patient_id ap = sess_user_id se"
    and "sess_role se = ''patient''"
  shows "appointments (snd (cancel_appointment_route (Some se) aid d)) =
           remove_first (\<lambda>a. a_id a = aid) (appointments d)"
proof -
  from assms(1) have "a_id ap = aid"
    by (auto simp: get_appointment_def find_Some_iff)
  with assms show ?thesis
    by (simp add: cancel_appointment_route_def role_required_def)
qed

lemma cancel_appointment_keeps_slots: "slots (snd (cancel_appointment aid d)) = slots d"
  using model_cancel_tables [of aid d] by simp

lemma doctor_update_keeps_slots_and_notifications:
  "slots (snd (doctor_appointment_detail sess aid nts status d)) = slots d \<and>
   notifications (snd (doctor_appointment_detail sess aid nts status d)) = notifications d"
  using doctor_update_store [of sess aid nts status d] by auto

text \<open>
  Every request keeps the slot keys pairwise distinct, so the stores that arise from
  the empty store by any requests, toggles of booked slots included, have at most one
  slot record per doctor, date and time.
\<close>

lemma handle_keeps_slot_keys_distinct:
  assumes "distinct (map slot_key (slots d))"
  shows "distinct (map slot_key (slots (handle r d)))"
proof -
  have flag: "distinct (map slot_key (update_first P (\<lambda>s. s\<lparr>s_is_available := b\<rparr>) (slots d')))"
    if "distinct (map slot_key (slots d'))" for P b d'
    using that by (simp add: update_first_map_key slot_key_def)
  have created: "distinct (map slot_key (slots (snd (create_appointment p dr dt tm rs n d'))))"
    if "distinct (map slot_key (slots d'))" for p dr dt tm rs n d'
    using create_appointment_store [of p dr dt tm rs n d'] flag [OF that] that
    by (elim disjE exE conjE) simp_all
  have freed: "distinct (map slot_key (slots (delete_appointment old
                 (set_slot_flag (a_doctor_id old) (a_date old) (a_time old) True d))))" for old
    using flag [OF assms] by (simp add: set_slot_flag_slots)
  show ?thesis
  proof (cases r)
    case (Book sess rid dr dt tm reason)
    from book_appointment_store_cases [of sess rid dr dt tm reason d]
    have "distinct (map slot_key (slots (snd (book_appointment sess rid dr dt tm reason d))))"
      using assms created [OF assms] created [OF freed]
      by (elim disjE exE conjE) simp_all
    with Book show ?thesis by simp
  next
    case (Cancel sess aid)
    from cancel_route_store [of sess aid d]
    have "distinct (map slot_key (slots (snd (cancel_appointment_route sess aid d))))"
      using assms freed by (elim disjE exE conjE) simp_all
    with Cancel show ?thesis by simp
  next
    case (Toggle sess dt tm b)
    from toggle_slot_store [of sess dt tm b d]
    have "distinct (map slot_key (slots (snd (toggle_slot sess dt tm b d))))"
    proof (elim disjE exE conjE)
      assume "snd (toggle_slot sess dt tm b d) = d"
      with assms show ?thesis by simp
    next
      fix se :: session
      assume st: "snd (toggle_slot sess dt tm b d) =
       (case find (slot_at (sess_user_id se) dt tm) (slots d) of
          Some s \<Rightarrow> d\<lparr>slots := update_first (slot_at (sess_user_id se) dt tm)
                                 (\<lambda>s. s\<lparr>s_is_available := b\<rparr>) (slots d)\<rparr>
        | None \<Rightarrow> d\<lparr>slots := slots d @
                       [\<lparr>s_id = next_id (map s_id (slots d)), s_doctor_id = sess_user_id se,
                         s_date = dt, s_time = tm, s_is_available = b\<rparr>]\<rparr>)"
      show ?thesis
      proof (cases "find (slot_at (sess_user_id se) dt tm) (slots d)")
        case None
        then have "(sess_user_id se, dt, tm) \<notin> slot_key ` set (slots d)"
          by (auto simp: find_None_iff slot_at_key)
        with st None assms show ?thesis by (simp add: slot_key_def)
      next
        case (Some s)
        with st flag [OF assms] show ?thesis by simp
      qed
    qed
    with Toggle show ?thesis by simp
  next
    case (DoctorUpdate sess aid nts status)
    with assms doctor_update_keeps_slots_and_notifications [of sess aid nts status d]
    show ?thesis by simp
  next
    case (CheckIn sess aid)
    with assms check_in_tables [of sess aid d] show ?thesis by simp
  next
    case (Seed doctor_id today)
    from create_default_schedule_store [of doctor_id today d] obtain rows where
      "snd (create_default_schedule doctor_id today d) = d\<lparr>schedules := rows\<rparr>" by blast
    with assms Seed show ?thesis by simp
  next
    case (ModelCancel aid)
    with assms cancel_appointment_keeps_slots [of aid d] show ?thesis by simp
  qed
qed

end
